theory Spec2Isabelle
  imports Complex_Main
begin

section \<open>Values of the JavaScript engine\<close>

text \<open>
  The server (\<^verbatim>\<open>src/server.js\<close>) handles values that come out of \<^verbatim>\<open>JSON.parse\<close>:
  the MQTT payload, the body of a request, the answer of the weather feed. A number is an
  IEEE double: not-a-number, an infinity, or a finite value, which is kept as the exact
  rational it denotes (the two zeros are one value; they compare equal and are both falsy).
\<close>

datatype jsnum = NaN | NegInf | Fin rat | PosInf

text \<open>
  \<open>JUndefined\<close> is what reading a missing property gives; it never occurs inside a parsed
  document. An object is the list of its own properties, each key once (for a repeated key
  \<^verbatim>\<open>JSON.parse\<close> keeps one value); a string is compared for equality and emptiness only.
\<close>

datatype jsval =
    JUndefined
  | JNull
  | JBool bool
  | JNum jsnum
  | JStr string
  | JArr "jsval list"
  | JObj "(string \<times> jsval) list"

datatype js_error = SyntaxError | TypeError | TransportError | AxiosError bool

text \<open>Statements run in sequence until one throws: \<open>Inl\<close> is the thrown error.\<close>

definition ebind :: "js_error + 'a \<Rightarrow> ('a \<Rightarrow> js_error + 'b) \<Rightarrow> js_error + 'b" where
  "ebind m f = (case m of Inl e \<Rightarrow> Inl e | Inr x \<Rightarrow> f x)"

text \<open>
  The conversions between text and numbers are the engine's, not the server's: decimal
  text is rounded to a double and a double is printed with its shortest digits. They are
  parameters of the model, and every theorem holds for each engine.
\<close>

record builtins =
  Number_toString :: "jsnum \<Rightarrow> string"
  StringToNumber :: "string \<Rightarrow> jsnum"
  parseFloat_str :: "string \<Rightarrow> jsnum"
  parseInt_str :: "string \<Rightarrow> jsnum"

text \<open>
  Truthiness, as \<^verbatim>\<open>if (action)\<close> and \<^verbatim>\<open>data.pumpStatus || 'UNKNOWN'\<close> test it.
\<close>

fun truthy :: "jsval \<Rightarrow> bool" where
  "truthy JUndefined = False"
| "truthy JNull = False"
| "truthy (JBool b) = b"
| "truthy (JNum n) = (n \<noteq> NaN \<and> n \<noteq> Fin 0)"
| "truthy (JStr s) = (s \<noteq> [])"
| "truthy (JArr xs) = True"
| "truthy (JObj kvs) = True"

text \<open>
  Property access \<^verbatim>\<open>v.k\<close>: a TypeError on \<^verbatim>\<open>undefined\<close> and \<^verbatim>\<open>null\<close>, the own property
  of an object, and \<^verbatim>\<open>undefined\<close> otherwise. None of the names the server reads
  (\<^verbatim>\<open>soilMoisture\<close>, \<^verbatim>\<open>pumpStatus\<close>, \<^verbatim>\<open>temperature\<close>, \<^verbatim>\<open>humidity\<close>, \<^verbatim>\<open>action\<close>, \<^verbatim>\<open>main\<close>,
  \<^verbatim>\<open>temp\<close>, \<^verbatim>\<open>feels_like\<close>, \<^verbatim>\<open>weather\<close>, \<^verbatim>\<open>description\<close>, \<^verbatim>\<open>icon\<close>, \<^verbatim>\<open>name\<close>, \<^verbatim>\<open>wind\<close>,
  \<^verbatim>\<open>speed\<close>) is inherited from a prototype of a parsed value.
\<close>

fun get_prop :: "jsval \<Rightarrow> string \<Rightarrow> js_error + jsval" where
  "get_prop JUndefined k = Inl TypeError"
| "get_prop JNull k = Inl TypeError"
| "get_prop (JObj kvs) k = Inr (case map_of kvs k of Some v \<Rightarrow> v | None \<Rightarrow> JUndefined)"
| "get_prop v k = Inr JUndefined"

text \<open>Element access \<^verbatim>\<open>v[0]\<close>, as in \<^verbatim>\<open>data.weather[0]\<close>.\<close>

fun get_elem0 :: "jsval \<Rightarrow> js_error + jsval" where
  "get_elem0 JUndefined = Inl TypeError"
| "get_elem0 JNull = Inl TypeError"
| "get_elem0 (JArr xs) = Inr (case xs of [] \<Rightarrow> JUndefined | x # _ \<Rightarrow> x)"
| "get_elem0 (JStr s) = Inr (case s of [] \<Rightarrow> JUndefined | c # _ \<Rightarrow> JStr [c])"
| "get_elem0 (JObj kvs) = Inr (case map_of kvs ''0'' of Some v \<Rightarrow> v | None \<Rightarrow> JUndefined)"
| "get_elem0 v = Inr JUndefined"

text \<open>
  \<^verbatim>\<open>ToString\<close>, which template literals, \<^verbatim>\<open>parseFloat\<close> and \<^verbatim>\<open>parseInt\<close> apply to their
  argument. An array is joined with commas, \<^verbatim>\<open>undefined\<close> and \<^verbatim>\<open>null\<close> elements printing
  as the empty text. A parsed object has no callable property of its own: when it has an
  own property \<^verbatim>\<open>toString\<close>, the inherited method is hidden, \<^verbatim>\<open>valueOf\<close> gives back the
  object, and the conversion throws a TypeError; otherwise it prints as
  \<^verbatim>\<open>[object Object]\<close>.
\<close>

fun ToString :: "builtins \<Rightarrow> jsval \<Rightarrow> js_error + string"
  and join :: "builtins \<Rightarrow> jsval list \<Rightarrow> js_error + string" where
  "ToString E JUndefined = Inr ''undefined''"
| "ToString E JNull = Inr ''null''"
| "ToString E (JBool b) = Inr (if b then ''true'' else ''false'')"
| "ToString E (JNum n) = Inr (Number_toString E n)"
| "ToString E (JStr s) = Inr s"
| "ToString E (JArr xs) = join E xs"
| "ToString E (JObj kvs) =
     (if map_of kvs ''toString'' = None then Inr ''[object Object]'' else Inl TypeError)"
| "join E [] = Inr []"
| "join E (x # xs) =
     (case (if x = JUndefined \<or> x = JNull then Inr [] else ToString E x) of
        Inl e \<Rightarrow> Inl e
      | Inr s \<Rightarrow>
          (if xs = [] then Inr s
           else (case join E xs of Inl e \<Rightarrow> Inl e | Inr r \<Rightarrow> Inr (s @ '','' @ r))))"

text \<open>
  \<^verbatim>\<open>ToNumber\<close>, which \<^verbatim>\<open><\<close> and \<^verbatim>\<open>>\<close> apply to an operand when the other one is a
  number: arrays and objects are first turned into text.
\<close>

fun ToNumber :: "builtins \<Rightarrow> jsval \<Rightarrow> js_error + jsnum" where
  "ToNumber E JUndefined = Inr NaN"
| "ToNumber E JNull = Inr (Fin 0)"
| "ToNumber E (JBool b) = Inr (Fin (if b then 1 else 0))"
| "ToNumber E (JNum n) = Inr n"
| "ToNumber E (JStr s) = Inr (StringToNumber E s)"
| "ToNumber E v = ebind (ToString E v) (\<lambda>s. Inr (StringToNumber E s))"

text \<open>The order of doubles; every comparison with NaN is false.\<close>

fun num_lt :: "jsnum \<Rightarrow> jsnum \<Rightarrow> bool" where
  "num_lt NaN y = False"
| "num_lt x NaN = False"
| "num_lt (Fin a) (Fin b) = (a < b)"
| "num_lt x NegInf = False"
| "num_lt NegInf y = True"
| "num_lt PosInf y = False"
| "num_lt x PosInf = True"

text \<open>\<^verbatim>\<open>v > k\<close> and \<^verbatim>\<open>v < k\<close> for a numeric constant \<open>k\<close>.\<close>

definition js_gt :: "builtins \<Rightarrow> jsval \<Rightarrow> rat \<Rightarrow> js_error + bool" where
  "js_gt E v k = ebind (ToNumber E v) (\<lambda>n. Inr (num_lt (Fin k) n))"

definition js_lt :: "builtins \<Rightarrow> jsval \<Rightarrow> rat \<Rightarrow> js_error + bool" where
  "js_lt E v k = ebind (ToNumber E v) (\<lambda>n. Inr (num_lt n (Fin k)))"

text \<open>\<^verbatim>\<open>parseFloat(v)\<close> and \<^verbatim>\<open>parseInt(v)\<close>: the argument is turned into text first.\<close>

definition parseFloat :: "builtins \<Rightarrow> jsval \<Rightarrow> js_error + jsnum" where
  "parseFloat E v = ebind (ToString E v) (\<lambda>s. Inr (parseFloat_str E s))"

definition parseInt :: "builtins \<Rightarrow> jsval \<Rightarrow> js_error + jsnum" where
  "parseInt E v = ebind (ToString E v) (\<lambda>s. Inr (parseInt_str E s))"

section \<open>The state of the server\<close>

text \<open>
  The object assigned to \<^verbatim>\<open>latestSensorData\<close> and pushed on \<^verbatim>\<open>historicalData\<close>. The
  timestamp is a \<^verbatim>\<open>Date\<close> (its time value in milliseconds) or \<^verbatim>\<open>null\<close>.
\<close>

record reading =
  soilMoisture :: jsval
  pumpStatus :: jsval
  temperature :: jsval
  humidity :: jsval
  timestamp :: "int option"

record weather =
  w_temperature :: jsval
  w_feels_like :: jsval
  w_description :: jsval
  w_icon :: jsval
  w_city :: jsval
  w_humidity :: jsval
  w_wind_speed :: jsval
  w_timestamp :: "int option"

record server =
  latestSensorData :: reading
  historicalData :: "reading list"
  lastPumpCommandTime :: int
  latestWeatherData :: weather

definition initial_server :: server where
  "initial_server =
     \<lparr> latestSensorData =
         \<lparr> soilMoisture = JNull, pumpStatus = JStr ''OFF'', temperature = JNull,
           humidity = JNull, timestamp = None \<rparr>,
       historicalData = [],
       lastPumpCommandTime = 0,
       latestWeatherData =
         \<lparr> w_temperature = JNull, w_feels_like = JNull, w_description = JNull,
           w_icon = JNull, w_city = JNull, w_humidity = JNull, w_wind_speed = JNull,
           w_timestamp = None \<rparr> \<rparr>"

definition SENSOR_DATA_TOPIC :: string where
  "SENSOR_DATA_TOPIC = ''farm/plot1/sensor_data''"

definition COMMAND_TOPIC :: string where
  "COMMAND_TOPIC = ''farm/plot1/commands''"

definition MOISTURE_DRY_THRESHOLD :: rat where
  "MOISTURE_DRY_THRESHOLD = 700"

definition MOISTURE_WET_THRESHOLD :: rat where
  "MOISTURE_WET_THRESHOLD = 400"

definition PUMP_COOLDOWN_SECONDS :: rat where
  "PUMP_COOLDOWN_SECONDS = 30"

section \<open>What a handler does to the outside\<close>

text \<open>
  The function passed to \<^verbatim>\<open>client.publish\<close>, with the variables it captured: the two
  callbacks of the automation hold \<^verbatim>\<open>currentTime\<close>, the one of the manual command holds
  \<^verbatim>\<open>action\<close>. The client calls it later, with the error of the transport or without one.
\<close>

datatype callback = AutoOnCallback int | AutoOffCallback int | ManualCallback jsval

text \<open>
  A console line keeps its fixed text only. \<open>Publish topic v cb\<close> is
  \<^verbatim>\<open>client.publish(topic, JSON.stringify(v), cb)\<close>; \<open>Respond status v\<close> is
  \<^verbatim>\<open>res.status(status).json(v)\<close>.
\<close>

datatype effect =
    ConsoleLog string
  | ConsoleWarn string
  | ConsoleError string
  | Publish string jsval callback
  | Respond nat jsval

fun is_publish :: "effect \<Rightarrow> bool" where
  "is_publish (Publish t v cb) = True"
| "is_publish e = False"

fun is_console :: "effect \<Rightarrow> bool" where
  "is_console (Publish t v cb) = False"
| "is_console (Respond s v) = False"
| "is_console e = True"

definition publishes :: "effect list \<Rightarrow> effect list" where
  "publishes effs = filter is_publish effs"

section \<open>The MQTT message handler\<close>

text \<open>
  The object literal of lines 168-174, its properties evaluated in order. \<open>ts\<close> is the
  time \<^verbatim>\<open>new Date()\<close> reads.
\<close>

definition build_reading :: "builtins \<Rightarrow> jsval \<Rightarrow> int \<Rightarrow> js_error + reading" where
  "build_reading E data ts =
     ebind (get_prop data ''soilMoisture'') (\<lambda>sm.
     ebind (get_prop data ''pumpStatus'') (\<lambda>ps.
     ebind (get_prop data ''temperature'') (\<lambda>t.
     ebind (if t \<noteq> JUndefined then ebind (parseFloat E t) (\<lambda>n. Inr (JNum n)) else Inr JNull) (\<lambda>t'.
     ebind (get_prop data ''humidity'') (\<lambda>h.
     ebind (if h \<noteq> JUndefined then ebind (parseInt E h) (\<lambda>n. Inr (JNum n)) else Inr JNull) (\<lambda>h'.
       Inr \<lparr> soilMoisture = sm,
             pumpStatus = (if truthy ps then ps else JStr ''UNKNOWN''),
             temperature = t',
             humidity = h',
             timestamp = Some ts \<rparr>))))))"

text \<open>
  Lines 168 and 176-179: the new object becomes the latest reading and is pushed on the
  history, whose head is shifted out when the length exceeds 200.
\<close>

definition recordReading :: "reading \<Rightarrow> server \<Rightarrow> server" where
  "recordReading r st =
     (let h = historicalData st @ [r]
      in st\<lparr> latestSensorData := r,
             historicalData := (if length h > 200 then tl h else h) \<rparr>)"

text \<open>
  Line 187. \<^verbatim>\<open>Date.now()\<close> and \<^verbatim>\<open>lastPumpCommandTime\<close> are whole milliseconds; the
  quotient is taken exactly, which decides the comparison with 30 as the double quotient
  does.
\<close>

definition canSendPumpCommand :: "int \<Rightarrow> int \<Rightarrow> bool" where
  "canSendPumpCommand currentTime lastTime =
     (of_int (currentTime - lastTime) / 1000 \<ge> PUMP_COOLDOWN_SECONDS)"

text \<open>
  Lines 182-213. The template literals print the moisture and the pump status, which
  throws when \<^verbatim>\<open>ToString\<close> does.
\<close>

definition automation :: "builtins \<Rightarrow> reading \<Rightarrow> int \<Rightarrow> int \<Rightarrow> js_error + effect list" where
  "automation E r currentTime lastTime =
     (let currentSoilMoisture = soilMoisture r;
          currentPumpStatus = pumpStatus r
      in if canSendPumpCommand currentTime lastTime then
           ebind (js_gt E currentSoilMoisture MOISTURE_DRY_THRESHOLD) (\<lambda>dry.
             if dry \<and> currentPumpStatus = JStr ''OFF'' then
               ebind (ToString E currentSoilMoisture) (\<lambda>s.
                 Inr [ConsoleLog ''Automation: Soil moisture is dry. Turning pump ON.'',
                      Publish COMMAND_TOPIC (JObj [(''command'', JStr ''TURN_PUMP_ON'')])
                        (AutoOnCallback currentTime)])
             else
               ebind (js_lt E currentSoilMoisture MOISTURE_WET_THRESHOLD) (\<lambda>wet.
                 if wet \<and> currentPumpStatus = JStr ''ON'' then
                   ebind (ToString E currentSoilMoisture) (\<lambda>s.
                     Inr [ConsoleLog ''Automation: Soil moisture is wet. Turning pump OFF.'',
                          Publish COMMAND_TOPIC (JObj [(''command'', JStr ''TURN_PUMP_OFF'')])
                            (AutoOffCallback currentTime)])
                 else
                   ebind (ToString E currentSoilMoisture) (\<lambda>s.
                   ebind (ToString E currentPumpStatus) (\<lambda>p.
                     Inr [ConsoleLog ''Automation: Soil moisture is within range or pump is already in desired state.'']))))
         else Inr [ConsoleLog ''Automation: Pump command cooldown active.''])"

text \<open>
  The handler of lines 161-219. \<open>parsed\<close> is the outcome of
  \<^verbatim>\<open>JSON.parse(message.toString())\<close>, \<open>ts\<close> what \<^verbatim>\<open>new Date()\<close> reads and \<open>currentTime\<close>
  what \<^verbatim>\<open>Date.now()\<close> reads. Whatever is thrown inside \<^verbatim>\<open>try\<close> is caught and logged; what
  was assigned before stays assigned.
\<close>

definition on_message ::
  "builtins \<Rightarrow> string \<Rightarrow> js_error + jsval \<Rightarrow> int \<Rightarrow> int \<Rightarrow> server \<Rightarrow> server \<times> effect list" where
  "on_message E topic parsed ts currentTime st =
     (case parsed of
        Inl e \<Rightarrow> (st, [ConsoleError ''Failed to parse MQTT message:''])
      | Inr data \<Rightarrow>
          if topic = SENSOR_DATA_TOPIC then
            (case build_reading E data ts of
               Inl e \<Rightarrow>
                 (st, [ConsoleLog ''Received message'',
                       ConsoleError ''Failed to parse MQTT message:''])
             | Inr r \<Rightarrow>
                 (let st' = recordReading r st
                  in case automation E r currentTime (lastPumpCommandTime st') of
                       Inl e \<Rightarrow>
                         (st', [ConsoleLog ''Received message'',
                                ConsoleError ''Failed to parse MQTT message:''])
                     | Inr effs \<Rightarrow> (st', ConsoleLog ''Received message'' # effs)))
          else (st, [ConsoleLog ''Received message'']))"

text \<open>Messages are handled one at a time, in the order they arrive.\<close>

fun run_messages ::
  "builtins \<Rightarrow> (string \<times> (js_error + jsval) \<times> int \<times> int) list \<Rightarrow> server \<Rightarrow> server \<times> effect list" where
  "run_messages E [] st = (st, [])"
| "run_messages E ((topic, parsed, ts, currentTime) # ms) st =
     (let (st1, effs1) = on_message E topic parsed ts currentTime st;
          (st2, effs2) = run_messages E ms st1
      in (st2, effs1 @ effs2))"

text \<open>The readings of a run, recorded one after the other.\<close>

definition record_all :: "reading list \<Rightarrow> server \<Rightarrow> server" where
  "record_all rs st = foldl (\<lambda>s r. recordReading r s) st rs"

section \<open>The publish callbacks\<close>

text \<open>
  What the client runs when a publish has completed: \<open>err\<close> is the error of the
  transport, or none. The automation callbacks (lines 193-196 and 201-204) advance
  \<^verbatim>\<open>lastPumpCommandTime\<close> to the captured \<^verbatim>\<open>currentTime\<close> when there is no error. The
  callback of the manual command (lines 255-262) answers the request; its template
  literals print \<^verbatim>\<open>action\<close>, and what that throws leaves the callback.
\<close>

definition publish_callback ::
  "builtins \<Rightarrow> callback \<Rightarrow> js_error option \<Rightarrow> server \<Rightarrow> js_error + server \<times> effect list" where
  "publish_callback E cb err st =
     (case cb of
        AutoOnCallback currentTime \<Rightarrow>
          if err = None then Inr (st\<lparr> lastPumpCommandTime := currentTime \<rparr>, [])
          else Inr (st, [ConsoleError ''Error publishing ON command:''])
      | AutoOffCallback currentTime \<Rightarrow>
          if err = None then Inr (st\<lparr> lastPumpCommandTime := currentTime \<rparr>, [])
          else Inr (st, [ConsoleError ''Error publishing OFF command:''])
      | ManualCallback action \<Rightarrow>
          if err \<noteq> None then
            Inr (st, [ConsoleError ''Failed to publish command:'',
                      Respond 500 (JObj [(''success'', JBool False),
                        (''message'', JStr ''Failed to send command via MQTT'')])])
          else
            ebind (ToString E action) (\<lambda>a.
              Inr (st, [ConsoleLog ''Manual command sent'',
                        Respond 200 (JObj [(''success'', JBool True),
                          (''message'',
                           JStr (''Command '' @ [CHR 0x27] @ a @ [CHR 0x27] @ '' sent.''))])])))"

section \<open>The manual command\<close>

text \<open>
  \<^verbatim>\<open>POST /api/command\<close>, lines 249-266. \<open>body\<close> is \<^verbatim>\<open>req.body\<close> and \<open>now\<close> what
  \<^verbatim>\<open>Date.now()\<close> reads. Destructuring throws on a body that is \<^verbatim>\<open>undefined\<close> or \<^verbatim>\<open>null\<close>,
  and the error leaves the handler.
\<close>

definition post_command :: "jsval \<Rightarrow> int \<Rightarrow> server \<Rightarrow> js_error + server \<times> effect list" where
  "post_command body now st =
     ebind (get_prop body ''action'') (\<lambda>action.
       if truthy action then
         Inr (st\<lparr> lastPumpCommandTime := now \<rparr>,
              [Publish COMMAND_TOPIC (JObj [(''command'', action)]) (ManualCallback action)])
       else
         Inr (st, [Respond 400 (JObj [(''success'', JBool False),
                     (''message'', JStr ''Action is required in request body.'')])]))"

section \<open>The weather refresh\<close>

text \<open>The object literal of lines 282-291, its properties evaluated in order.\<close>

definition weather_of_response :: "jsval \<Rightarrow> int \<Rightarrow> js_error + weather" where
  "weather_of_response data ts =
     ebind (get_prop data ''main'') (\<lambda>m1. ebind (get_prop m1 ''temp'') (\<lambda>temp.
     ebind (get_prop data ''main'') (\<lambda>m2. ebind (get_prop m2 ''feels_like'') (\<lambda>feels_like.
     ebind (get_prop data ''weather'') (\<lambda>w1. ebind (get_elem0 w1) (\<lambda>e1.
     ebind (get_prop e1 ''description'') (\<lambda>description.
     ebind (get_prop data ''weather'') (\<lambda>w2. ebind (get_elem0 w2) (\<lambda>e2.
     ebind (get_prop e2 ''icon'') (\<lambda>icon.
     ebind (get_prop data ''name'') (\<lambda>name.
     ebind (get_prop data ''main'') (\<lambda>m3. ebind (get_prop m3 ''humidity'') (\<lambda>hum.
     ebind (get_prop data ''wind'') (\<lambda>wind. ebind (get_prop wind ''speed'') (\<lambda>speed.
       Inr \<lparr> w_temperature = temp, w_feels_like = feels_like, w_description = description,
             w_icon = icon, w_city = name, w_humidity = hum, w_wind_speed = speed,
             w_timestamp = Some ts \<rparr>)))))))))))))))"

text \<open>
  The body of \<^verbatim>\<open>try\<close>, lines 279-292. \<open>response\<close> is the outcome of
  \<^verbatim>\<open>await axios.get(url)\<close>: the error it rejects with, or \<^verbatim>\<open>response.data\<close>.
\<close>

definition weather_try :: "js_error + jsval \<Rightarrow> int \<Rightarrow> js_error + weather" where
  "weather_try response ts = ebind response (\<lambda>data. weather_of_response data ts)"

fun has_response :: "js_error \<Rightarrow> bool" where
  "has_response (AxiosError b) = b"
| "has_response e = False"

text \<open>
  \<^verbatim>\<open>fetchWeatherData\<close>, lines 271-299. The API key is a constant read from the environment
  when the server starts.
\<close>

definition fetchWeatherData ::
  "string \<Rightarrow> js_error + jsval \<Rightarrow> int \<Rightarrow> server \<Rightarrow> server \<times> effect list" where
  "fetchWeatherData OPENWEATHER_API_KEY response ts st =
     (if OPENWEATHER_API_KEY = [] \<or> OPENWEATHER_API_KEY = ''YOUR_OPENWEATHER_API_KEY'' then
        (st, [ConsoleWarn ''OpenWeatherMap API key not set in .env. Skipping weather fetch.''])
      else
        (case weather_try response ts of
           Inr w \<Rightarrow> (st\<lparr> latestWeatherData := w \<rparr>, [ConsoleLog ''Fetched weather data:''])
         | Inl error \<Rightarrow>
             (st, ConsoleError ''Error fetching weather data:''
                  # (if has_response error then [ConsoleError ''Weather API response error:'']
                     else []))))"

section \<open>The history query, with the arrays and objects in a store\<close>

text \<open>
  \<^verbatim>\<open>GET /api/data/history\<close>, lines 244-246, answers \<^verbatim>\<open>res.json([...historicalData])\<close>. Whether
  the copy shares anything with the live array is a matter of references, so here the
  arrays and the reading objects live in a store: a cell per object, its address the
  index in the store, an array holding the addresses of its elements. Allocation appends
  a cell.
\<close>

type_synonym ref = nat

datatype cell = ObjectCell reading | ArrayCell "ref list"

type_synonym store = "cell list"

definition lookup :: "store \<Rightarrow> ref \<Rightarrow> cell option" where
  "lookup \<sigma> a = (if a < length \<sigma> then Some (\<sigma> ! a) else None)"





text \<open>
  Whatever is done to an array through its address (an element assigned, pushed, shifted
  out, the length changed) leaves it with some list of elements.
\<close>

definition array_assign :: "store \<Rightarrow> ref \<Rightarrow> ref list \<Rightarrow> store" where
  "array_assign \<sigma> a rs = \<sigma>[a := ArrayCell rs]"


section \<open>An engine for text that holds no numeral\<close>

text \<open>
  On text that does not start with a numeral, such as \<^verbatim>\<open>abc\<close>, every conversion to a
  number answers NaN. This instance serves to evaluate the handlers on payloads whose
  numbers are JSON numbers and whose text is of that kind. How it prints a number is a
  placeholder: on such payloads the printed text only goes into console lines, of which
  the fixed text alone is kept.
\<close>

definition text_only_engine :: builtins where
  "text_only_engine =
     \<lparr> Number_toString = (\<lambda>n. ''NaN''),
       StringToNumber = (\<lambda>s. NaN),
       parseFloat_str = (\<lambda>s. NaN),
       parseInt_str = (\<lambda>s. NaN) \<rparr>"

section \<open>The history buffer\<close>

lemma ebind_Inl [simp]: "ebind (Inl e) f = Inl e"
  by (simp add: ebind_def)

lemma ebind_Inr [simp]: "ebind (Inr x) f = f x"
  by (simp add: ebind_def)

lemma push_shift:
  "length xs \<le> 200 \<Longrightarrow>
   (if length xs \<ge> 200 then tl xs @ [r] else xs @ [r])
     = drop (Suc (length xs) - 200) (xs @ [r])"
  by (cases xs) (auto simp: Suc_diff_le)

lemma drop_window_step:
  fixes all :: "'a list"
  assumes "d = drop (length all - 200) all"
  shows "drop (Suc (length d) - 200) (d @ [r]) = drop (Suc (length all) - 200) (all @ [r])"
proof (cases "length all \<ge> 200")
  case True
  then have len: "length d = 200" using assms by simp
  have ar: "Suc (length all) - 200 = Suc (length all - 200)" using True by simp
  have "drop (Suc (length d) - 200) (d @ [r]) = drop 1 d @ [r]"
    using len by simp
  also have "drop 1 d = drop (Suc (length all - 200)) all"
    using assms by simp
  also have "drop (Suc (length all - 200)) all @ [r] = drop (Suc (length all) - 200) (all @ [r])"
    unfolding ar using True by simp
  finally show ?thesis .
next
  case False
  then show ?thesis using assms by simp
qed

lemma historicalData_recordReading:
  "historicalData (recordReading r st) =
     (if length (historicalData st) \<ge> 200 then tl (historicalData st) @ [r]
      else historicalData st @ [r])"
  by (cases "historicalData st") (simp_all add: recordReading_def Let_def)

lemma record_all_snoc: "record_all (rs @ [r]) st = recordReading r (record_all rs st)"
  by (simp add: record_all_def)

lemma historicalData_record_all:
  assumes "length (historicalData st) \<le> 200"
  shows "historicalData (record_all rs st) =
     drop (length (historicalData st @ rs) - 200) (historicalData st @ rs)"
proof (induction rs rule: rev_induct)
  case Nil
  then show ?case using assms by (simp add: record_all_def)
next
  case (snoc r rs)
  define all where "all = historicalData st @ rs"
  define d where "d = drop (length all - 200) all"
  have ih: "historicalData (record_all rs st) = d"
    using snoc by (simp add: all_def d_def)
  have dlen: "length d \<le> 200"
    by (simp add: d_def)
  have "historicalData (record_all (rs @ [r]) st)
          = (if length d \<ge> 200 then tl d @ [r] else d @ [r])"
    by (simp only: record_all_snoc historicalData_recordReading ih)
  also have "\<dots> = drop (Suc (length d) - 200) (d @ [r])"
    by (rule push_shift [OF dlen])
  also have "\<dots> = drop (Suc (length all) - 200) (all @ [r])"
    by (rule drop_window_step) (simp add: d_def)
  finally show ?case
    by (simp add: all_def)
qed

text \<open>
  C4. Starting from the empty history of a fresh server, after recording the readings
  \<open>rs\<close> (for every \<open>rs\<close>, hence after each step of a longer run) the buffer holds
  \<open>min (length rs) 200\<close> readings, and they are the last ones recorded, in arrival order:
  the first \<open>length rs - 200\<close> have been evicted, oldest first. Beyond 200 readings the
  length is exactly 200.
\<close>

theorem history_fifo_200:
  "length (historicalData (record_all rs initial_server)) = min (length rs) 200
   \<and> historicalData (record_all rs initial_server) = drop (length rs - 200) rs
   \<and> (length rs > 200 \<longrightarrow>
        length (historicalData (record_all rs initial_server)) = 200
        \<and> (\<forall>i < 200. historicalData (record_all rs initial_server) ! i
                      = rs ! (length rs - 200 + i)))"
proof -
  have h0: "historicalData initial_server = []"
    by (simp add: initial_server_def)
  have eq: "historicalData (record_all rs initial_server) = drop (length rs - 200) rs"
    using historicalData_record_all [of initial_server rs] by (simp add: h0)
  show ?thesis
    by (simp add: eq min_def)
qed

theorem history_fifo_200_witness:
  "length (latestSensorData initial_server
             # replicate 200 \<lparr> soilMoisture = JNum (Fin 500), pumpStatus = JStr ''OFF'',
                 temperature = JNull, humidity = JNull, timestamp = Some 7 \<rparr>) > 200
   \<and> historicalData (record_all
        (latestSensorData initial_server
           # replicate 200 \<lparr> soilMoisture = JNum (Fin 500), pumpStatus = JStr ''OFF'',
               temperature = JNull, humidity = JNull, timestamp = Some 7 \<rparr>) initial_server)
       = replicate 200 \<lparr> soilMoisture = JNum (Fin 500), pumpStatus = JStr ''OFF'',
               temperature = JNull, humidity = JNull, timestamp = Some 7 \<rparr>"
  using history_fifo_200
    [of "latestSensorData initial_server
           # replicate 200 \<lparr> soilMoisture = JNum (Fin 500), pumpStatus = JStr ''OFF'',
               temperature = JNull, humidity = JNull, timestamp = Some 7 \<rparr>"]
  by simp

section \<open>The automation\<close>

lemma canSendPumpCommand_iff:
  "canSendPumpCommand currentTime lastTime \<longleftrightarrow> currentTime - lastTime \<ge> 30000"
proof -
  have "(of_int (currentTime - lastTime) / 1000 \<ge> (30::rat))
        \<longleftrightarrow> (of_int (currentTime - lastTime) \<ge> (30000::rat))"
    by (simp add: le_divide_eq)
  also have "\<dots> \<longleftrightarrow> currentTime - lastTime \<ge> 30000"
    by linarith
  finally show ?thesis
    by (simp add: canSendPumpCommand_def PUMP_COOLDOWN_SECONDS_def)
qed

lemma ToNumber_ToString:
  "ToNumber E v = Inr n \<Longrightarrow> \<exists>s. ToString E v = Inr s"
  by (cases v) (auto simp: ebind_def split: sum.splits if_splits)

lemma lastPumpCommandTime_recordReading [simp]:
  "lastPumpCommandTime (recordReading r st) = lastPumpCommandTime st"
  by (simp add: recordReading_def Let_def)

lemma lastPumpCommandTime_on_message:
  "lastPumpCommandTime (fst (on_message E topic parsed ts currentTime st)) = lastPumpCommandTime st"
  by (simp add: on_message_def Let_def split: sum.splits)

lemma run_messages_Cons:
  "run_messages E ((topic, parsed, ts, currentTime) # ms) st =
     (fst (run_messages E ms (fst (on_message E topic parsed ts currentTime st))),
      snd (on_message E topic parsed ts currentTime st)
        @ snd (run_messages E ms (fst (on_message E topic parsed ts currentTime st))))"
  by (simp add: case_prod_beta Let_def)

lemma automation_cooldown:
  "\<not> canSendPumpCommand currentTime lastTime \<Longrightarrow>
   automation E r currentTime lastTime = Inr [ConsoleLog ''Automation: Pump command cooldown active.'']"
  by (simp add: automation_def)

lemma on_message_cooldown:
  "currentTime - lastPumpCommandTime st < 30000 \<Longrightarrow>
   publishes (snd (on_message E topic parsed ts currentTime st)) = []"
  by (simp add: on_message_def Let_def publishes_def automation_cooldown canSendPumpCommand_iff
           split: sum.splits)

lemma automation_elapsed:
  assumes "canSendPumpCommand currentTime lastTime"
  shows "publishes (case automation E r currentTime lastTime of Inl e \<Rightarrow> [] | Inr effs \<Rightarrow> effs) =
     (case ToNumber E (soilMoisture r) of
        Inl e \<Rightarrow> []
      | Inr m \<Rightarrow>
          if num_lt (Fin MOISTURE_DRY_THRESHOLD) m \<and> pumpStatus r = JStr ''OFF'' then
            [Publish COMMAND_TOPIC (JObj [(''command'', JStr ''TURN_PUMP_ON'')]) (AutoOnCallback currentTime)]
          else if num_lt m (Fin MOISTURE_WET_THRESHOLD) \<and> pumpStatus r = JStr ''ON'' then
            [Publish COMMAND_TOPIC (JObj [(''command'', JStr ''TURN_PUMP_OFF'')]) (AutoOffCallback currentTime)]
          else [])"
proof (cases "ToNumber E (soilMoisture r)")
  case (Inl e)
  then show ?thesis
    using assms by (simp add: automation_def js_gt_def publishes_def Let_def)
next
  case (Inr m)
  then obtain s where s: "ToString E (soilMoisture r) = Inr s"
    using ToNumber_ToString by blast
  show ?thesis
    using assms Inr s
    by (cases "ToString E (pumpStatus r)")
       (simp_all add: automation_def js_gt_def js_lt_def publishes_def Let_def)
qed


lemma on_message_publishes:
  assumes "build_reading E data ts = Inr r"
    and "currentTime - lastPumpCommandTime st \<ge> 30000"
  shows "publishes (snd (on_message E SENSOR_DATA_TOPIC (Inr data) ts currentTime st)) =
     (case ToNumber E (soilMoisture r) of
        Inl e \<Rightarrow> []
      | Inr moisture \<Rightarrow>
          if num_lt (Fin MOISTURE_DRY_THRESHOLD) moisture \<and> pumpStatus r = JStr ''OFF'' then
            [Publish COMMAND_TOPIC (JObj [(''command'', JStr ''TURN_PUMP_ON'')])
               (AutoOnCallback currentTime)]
          else if num_lt moisture (Fin MOISTURE_WET_THRESHOLD) \<and> pumpStatus r = JStr ''ON'' then
            [Publish COMMAND_TOPIC (JObj [(''command'', JStr ''TURN_PUMP_OFF'')])
               (AutoOffCallback currentTime)]
          else [])"
proof -
  have can: "canSendPumpCommand currentTime (lastPumpCommandTime st)"
    using assms(2) by (simp add: canSendPumpCommand_iff)
  have "publishes (snd (on_message E SENSOR_DATA_TOPIC (Inr data) ts currentTime st)) =
          publishes (case automation E r currentTime (lastPumpCommandTime st) of
                       Inl e \<Rightarrow> [] | Inr effs \<Rightarrow> effs)"
    using assms(1)
    by (simp add: on_message_def Let_def publishes_def split: sum.splits)
  then show ?thesis
    using automation_elapsed [OF can, of E r] by simp
qed

text \<open>
  C1. For a reading the handler accepts on the sensor topic, with the cooldown elapsed
  (at least 30000 ms since \<^verbatim>\<open>lastPumpCommandTime\<close>), the commands published are: exactly
  one \<^verbatim>\<open>TURN_PUMP_ON\<close> when the moisture is above the dry threshold and the reported pump
  status is \<^verbatim>\<open>OFF\<close>; exactly one \<^verbatim>\<open>TURN_PUMP_OFF\<close> when it is below the wet threshold and
  the status is \<^verbatim>\<open>ON\<close>; none in every other case. The moisture is the numeric value of
  the reading's \<^verbatim>\<open>soilMoisture\<close>, as the comparison takes it. In particular no command is
  published for a moisture in the closed band from the wet to the dry threshold, whatever
  the pump status.
\<close>

theorem automation_decision:
  assumes "build_reading E data ts = Inr r"
    and "currentTime - lastPumpCommandTime st \<ge> 30000"
  shows "publishes (snd (on_message E SENSOR_DATA_TOPIC (Inr data) ts currentTime st)) =
     (case ToNumber E (soilMoisture r) of
        Inl e \<Rightarrow> []
      | Inr moisture \<Rightarrow>
          if num_lt (Fin MOISTURE_DRY_THRESHOLD) moisture \<and> pumpStatus r = JStr ''OFF'' then
            [Publish COMMAND_TOPIC (JObj [(''command'', JStr ''TURN_PUMP_ON'')])
               (AutoOnCallback currentTime)]
          else if num_lt moisture (Fin MOISTURE_WET_THRESHOLD) \<and> pumpStatus r = JStr ''ON'' then
            [Publish COMMAND_TOPIC (JObj [(''command'', JStr ''TURN_PUMP_OFF'')])
               (AutoOffCallback currentTime)]
          else [])
   \<and> (\<forall>q. soilMoisture r = JNum (Fin q)
            \<and> MOISTURE_WET_THRESHOLD \<le> q \<and> q \<le> MOISTURE_DRY_THRESHOLD \<longrightarrow>
          publishes (snd (on_message E SENSOR_DATA_TOPIC (Inr data) ts currentTime st)) = [])"
proof -
  note main = on_message_publishes [OF assms]
  have band: "publishes (snd (on_message E SENSOR_DATA_TOPIC (Inr data) ts currentTime st)) = []"
    if "soilMoisture r = JNum (Fin q)" "MOISTURE_WET_THRESHOLD \<le> q" "q \<le> MOISTURE_DRY_THRESHOLD"
    for q
    using that by (simp add: main)
  show ?thesis
    using main band by blast
qed

theorem automation_decision_witness:
  "build_reading text_only_engine
     (JObj [(''soilMoisture'', JNum (Fin 750)), (''pumpStatus'', JStr ''OFF'')]) 5
     = Inr \<lparr> soilMoisture = JNum (Fin 750), pumpStatus = JStr ''OFF'', temperature = JNull,
             humidity = JNull, timestamp = Some 5 \<rparr>
   \<and> (30000::int) - lastPumpCommandTime initial_server \<ge> 30000
   \<and> publishes (snd (on_message text_only_engine SENSOR_DATA_TOPIC
        (Inr (JObj [(''soilMoisture'', JNum (Fin 750)), (''pumpStatus'', JStr ''OFF'')]))
        5 30000 initial_server))
       = [Publish COMMAND_TOPIC (JObj [(''command'', JStr ''TURN_PUMP_ON'')])
            (AutoOnCallback 30000)]"
proof -
  have b: "build_reading text_only_engine
     (JObj [(''soilMoisture'', JNum (Fin 750)), (''pumpStatus'', JStr ''OFF'')]) 5
     = Inr \<lparr> soilMoisture = JNum (Fin 750), pumpStatus = JStr ''OFF'', temperature = JNull,
             humidity = JNull, timestamp = Some 5 \<rparr>"
    by (simp add: build_reading_def)
  have c: "(30000::int) - lastPumpCommandTime initial_server \<ge> 30000"
    by (simp add: initial_server_def)
  have "publishes (snd (on_message text_only_engine SENSOR_DATA_TOPIC
        (Inr (JObj [(''soilMoisture'', JNum (Fin 750)), (''pumpStatus'', JStr ''OFF'')]))
        5 30000 initial_server))
       = [Publish COMMAND_TOPIC (JObj [(''command'', JStr ''TURN_PUMP_ON'')])
            (AutoOnCallback 30000)]"
    using automation_decision [OF b c, THEN conjunct1]
    by (simp add: MOISTURE_DRY_THRESHOLD_def)
  then show ?thesis
    using b c by blast
qed

lemma run_messages_cooldown:
  "(\<forall>(topic, parsed, ts, currentTime) \<in> set ms.
               currentTime - lastPumpCommandTime st < 30000) \<Longrightarrow>
      publishes (snd (run_messages E ms st)) = []
      \<and> lastPumpCommandTime (fst (run_messages E ms st)) = lastPumpCommandTime st"
proof (induction ms arbitrary: st)
  case Nil
  then show ?case by (simp add: publishes_def)
next
  case (Cons m ms)
  obtain topic parsed ts currentTime where m: "m = (topic, parsed, ts, currentTime)"
    by (cases m) auto
  let ?st1 = "fst (on_message E topic parsed ts currentTime st)"
  have keep: "lastPumpCommandTime ?st1 = lastPumpCommandTime st"
    by (rule lastPumpCommandTime_on_message)
  have now: "currentTime - lastPumpCommandTime st < 30000"
    using Cons.prems m by simp
  have rest: "\<forall>(topic, parsed, ts, currentTime) \<in> set ms.
                currentTime - lastPumpCommandTime ?st1 < 30000"
    using Cons.prems keep by simp
  have ih: "publishes (snd (run_messages E ms ?st1)) = []
            \<and> lastPumpCommandTime (fst (run_messages E ms ?st1)) = lastPumpCommandTime st"
    using Cons.IH [OF rest] keep by simp
  have one: "publishes (snd (on_message E topic parsed ts currentTime st)) = []"
    by (rule on_message_cooldown [OF now])
  show ?case
    using ih one
    by (simp add: m run_messages_Cons publishes_def del: run_messages.simps)
qed

text \<open>
  C2. A message handled less than 30000 ms after \<^verbatim>\<open>lastPumpCommandTime\<close> publishes no
  command and leaves \<^verbatim>\<open>lastPumpCommandTime\<close> as it was, whatever its topic, payload,
  moisture and pump status (a reading on the sensor topic is still recorded as the latest
  one and in the history). The same holds for a whole sequence of messages, each of them
  handled less than 30000 ms after the \<^verbatim>\<open>lastPumpCommandTime\<close> the sequence starts with:
  none publishes, and \<^verbatim>\<open>lastPumpCommandTime\<close> is unchanged at the end.
\<close>

theorem cooldown_suppresses:
  "(currentTime - lastPumpCommandTime st < 30000 \<longrightarrow>
      publishes (snd (on_message E topic parsed ts currentTime st)) = []
      \<and> lastPumpCommandTime (fst (on_message E topic parsed ts currentTime st))
          = lastPumpCommandTime st)
   \<and> ((\<forall>(topic, parsed, ts, currentTime) \<in> set ms.
          currentTime - lastPumpCommandTime st < 30000) \<longrightarrow>
      publishes (snd (run_messages E ms st)) = []
      \<and> lastPumpCommandTime (fst (run_messages E ms st)) = lastPumpCommandTime st)"
proof (intro conjI impI)
  assume "currentTime - lastPumpCommandTime st < 30000"
  then show "publishes (snd (on_message E topic parsed ts currentTime st)) = []"
    by (rule on_message_cooldown)
next
  show "lastPumpCommandTime (fst (on_message E topic parsed ts currentTime st))
          = lastPumpCommandTime st"
    by (rule lastPumpCommandTime_on_message)
next
  assume "\<forall>(topic, parsed, ts, currentTime) \<in> set ms.
          currentTime - lastPumpCommandTime st < 30000"
  then show "publishes (snd (run_messages E ms st)) = []"
    using run_messages_cooldown by blast
next
  assume "\<forall>(topic, parsed, ts, currentTime) \<in> set ms.
          currentTime - lastPumpCommandTime st < 30000"
  then show "lastPumpCommandTime (fst (run_messages E ms st)) = lastPumpCommandTime st"
    using run_messages_cooldown by blast
qed

theorem cooldown_suppresses_witness:
  "(10000::int) - lastPumpCommandTime initial_server < 30000
   \<and> (15000::int) - lastPumpCommandTime initial_server < 30000
   \<and> publishes (snd (on_message text_only_engine SENSOR_DATA_TOPIC
        (Inr (JObj [(''soilMoisture'', JNum (Fin 750)), (''pumpStatus'', JStr ''OFF'')]))
        10000 10000 initial_server)) = []
   \<and> publishes (snd (run_messages text_only_engine
         [(SENSOR_DATA_TOPIC,
           Inr (JObj [(''soilMoisture'', JNum (Fin 750)), (''pumpStatus'', JStr ''OFF'')]),
           10000, 10000),
          (SENSOR_DATA_TOPIC,
           Inr (JObj [(''soilMoisture'', JNum (Fin 300)), (''pumpStatus'', JStr ''ON'')]),
           15000, 15000)] initial_server)) = []"
proof -
  let ?m1 = "(SENSOR_DATA_TOPIC,
               Inr (JObj [(''soilMoisture'', JNum (Fin 750)), (''pumpStatus'', JStr ''OFF'')]),
               10000::int, 10000::int)"
  let ?m2 = "(SENSOR_DATA_TOPIC,
               Inr (JObj [(''soilMoisture'', JNum (Fin 300)), (''pumpStatus'', JStr ''ON'')]),
               15000::int, 15000::int)"
  have a: "(10000::int) - lastPumpCommandTime initial_server < 30000"
    by (simp add: initial_server_def)
  have a2: "(15000::int) - lastPumpCommandTime initial_server < 30000"
    by (simp add: initial_server_def)
  have b: "\<forall>(topic, parsed, ts, currentTime) \<in> set [?m1, ?m2].
             currentTime - lastPumpCommandTime initial_server < 30000"
    using a a2 by simp
  note inst = cooldown_suppresses [of 10000 initial_server text_only_engine SENSOR_DATA_TOPIC
        "Inr (JObj [(''soilMoisture'', JNum (Fin 750)), (''pumpStatus'', JStr ''OFF'')])" 10000
        "[?m1, ?m2]"]
  have c: "publishes (snd (on_message text_only_engine SENSOR_DATA_TOPIC
        (Inr (JObj [(''soilMoisture'', JNum (Fin 750)), (''pumpStatus'', JStr ''OFF'')]))
        10000 10000 initial_server)) = []"
    using inst [THEN conjunct1, THEN mp, OF a] by (rule conjunct1)
  have d: "publishes (snd (run_messages text_only_engine [?m1, ?m2] initial_server)) = []"
    using inst [THEN conjunct2, THEN mp, OF b] by (rule conjunct1)
  show ?thesis
    by (intro conjI a a2 c d)
qed

section \<open>The callbacks of the automation\<close>

lemma automation_publish_cases:
  assumes "automation E r currentTime lastTime = Inr effs"
    and "Publish t v cb \<in> set effs"
  shows "canSendPumpCommand currentTime lastTime
     \<and> t = COMMAND_TOPIC
     \<and> ((v = JObj [(''command'', JStr ''TURN_PUMP_ON'')] \<and> cb = AutoOnCallback currentTime)
        \<or> (v = JObj [(''command'', JStr ''TURN_PUMP_OFF'')] \<and> cb = AutoOffCallback currentTime))
     \<and> publishes effs = [Publish t v cb]"
  using assms
  by (auto simp: automation_def Let_def ebind_def publishes_def
           split: if_splits sum.splits)

lemma on_message_publish_cases:
  assumes "Publish t v cb \<in> set (snd (on_message E topic parsed ts currentTime st))"
  shows "\<exists>data r effs. parsed = Inr data \<and> topic = SENSOR_DATA_TOPIC
     \<and> build_reading E data ts = Inr r
     \<and> automation E r currentTime (lastPumpCommandTime st) = Inr effs
     \<and> Publish t v cb \<in> set effs
     \<and> on_message E topic parsed ts currentTime st
         = (recordReading r st, ConsoleLog ''Received message'' # effs)"
  using assms
  by (auto simp: on_message_def Let_def split: sum.splits if_splits)

lemma build_reading_ts:
  "build_reading E data ts = Inr r \<Longrightarrow>
   build_reading E data ts' = Inr (r\<lparr> timestamp := Some ts' \<rparr>)"
  by (auto simp: build_reading_def ebind_def split: sum.splits if_splits)


lemma publish_callback_auto_ok:
  "cb = AutoOnCallback currentTime \<or> cb = AutoOffCallback currentTime \<Longrightarrow>
   publish_callback E cb None s = Inr (s\<lparr> lastPumpCommandTime := currentTime \<rparr>, [])"
  by (auto simp: publish_callback_def)

lemma publish_callback_auto_failed:
  "cb = AutoOnCallback currentTime \<or> cb = AutoOffCallback currentTime \<Longrightarrow> err \<noteq> None \<Longrightarrow>
   \<exists>line. publish_callback E cb err s = Inr (s, [ConsoleError line])"
  by (auto simp: publish_callback_def)

text \<open>
  C3. Let a message handler publish a command at the evaluation time \<open>currentTime\<close>. The
  handler itself leaves \<^verbatim>\<open>lastPumpCommandTime\<close> as it was (which is not \<open>currentTime\<close>,
  the cooldown having elapsed). When the callback of that publish runs without an error,
  \<^verbatim>\<open>lastPumpCommandTime\<close> becomes \<open>currentTime\<close> and nothing else changes; when it runs
  with an error, the state is unchanged and the error is logged. So, run right after the
  handler, the callback leaves \<^verbatim>\<open>lastPumpCommandTime\<close> equal to \<open>currentTime\<close> if and only
  if the publish succeeded. After a failure the same payload, handled at any time from
  \<open>currentTime\<close> on, publishes the same command again: no cooldown was consumed.
\<close>

theorem automation_callback_advances:
  assumes pub: "Publish t v cb \<in> set (snd (on_message E topic parsed ts currentTime st))"
  shows "lastPumpCommandTime (fst (on_message E topic parsed ts currentTime st))
           = lastPumpCommandTime st
   \<and> lastPumpCommandTime st \<noteq> currentTime
   \<and> (\<forall>s. publish_callback E cb None s = Inr (s\<lparr> lastPumpCommandTime := currentTime \<rparr>, []))
   \<and> (\<forall>s err. err \<noteq> None \<longrightarrow>
         (\<exists>line. publish_callback E cb err s = Inr (s, [ConsoleError line])))
   \<and> (\<forall>err s2 effs2.
         publish_callback E cb err (fst (on_message E topic parsed ts currentTime st))
           = Inr (s2, effs2) \<longrightarrow>
         (lastPumpCommandTime s2 = currentTime \<longleftrightarrow> err = None))
   \<and> (\<forall>ts' now'. now' \<ge> currentTime \<longrightarrow>
         (\<exists>cb'. publishes (snd (on_message E topic parsed ts' now'
                    (fst (on_message E topic parsed ts currentTime st))))
                 = [Publish t v cb']))"
proof -
  let ?st1 = "fst (on_message E topic parsed ts currentTime st)"
  obtain data r effs where
    parsed: "parsed = Inr data" and topic: "topic = SENSOR_DATA_TOPIC"
    and build: "build_reading E data ts = Inr r"
    and auto: "automation E r currentTime (lastPumpCommandTime st) = Inr effs"
    and mem: "Publish t v cb \<in> set effs"
    and out: "on_message E topic parsed ts currentTime st
                = (recordReading r st, ConsoleLog ''Received message'' # effs)"
    using on_message_publish_cases [OF pub] by blast
  note cases = automation_publish_cases [OF auto mem]
  have can: "canSendPumpCommand currentTime (lastPumpCommandTime st)"
    using cases by simp
  then have elapsed: "currentTime - lastPumpCommandTime st \<ge> 30000"
    by (simp add: canSendPumpCommand_iff)
  have cb: "cb = AutoOnCallback currentTime \<or> cb = AutoOffCallback currentTime"
    using cases by blast
  have keep: "lastPumpCommandTime ?st1 = lastPumpCommandTime st"
    by (rule lastPumpCommandTime_on_message)
  have differ: "lastPumpCommandTime st \<noteq> currentTime"
    using elapsed by simp
  have ok: "publish_callback E cb None s = Inr (s\<lparr> lastPumpCommandTime := currentTime \<rparr>, [])"
    for s
    by (rule publish_callback_auto_ok [OF cb])
  have failed: "\<exists>line. publish_callback E cb err s = Inr (s, [ConsoleError line])"
    if "err \<noteq> None" for s err
    by (rule publish_callback_auto_failed [OF cb that])
  have iff: "lastPumpCommandTime s2 = currentTime \<longleftrightarrow> err = None"
    if run: "publish_callback E cb err ?st1 = Inr (s2, effs2)" for err s2 effs2
  proof (cases "err = None")
    case True
    then show ?thesis using run ok [of ?st1] by auto
  next
    case False
    then obtain line where "publish_callback E cb err ?st1 = Inr (?st1, [ConsoleError line])"
      using failed by blast
    then have "s2 = ?st1" using run by simp
    then show ?thesis using False keep differ by simp
  qed
  have first: "publishes (snd (on_message E topic parsed ts currentTime st)) = [Publish t v cb]"
    using cases by (simp add: out publishes_def)
  have retry: "\<exists>cb'. publishes (snd (on_message E topic parsed ts' now' ?st1)) = [Publish t v cb']"
    if later: "now' \<ge> currentTime" for ts' now'
  proof -
    have build': "build_reading E data ts' = Inr (r\<lparr> timestamp := Some ts' \<rparr>)"
      by (rule build_reading_ts [OF build])
    have elapsed': "now' - lastPumpCommandTime ?st1 \<ge> 30000"
      using elapsed later keep by simp
    have d1: "publishes (snd (on_message E SENSOR_DATA_TOPIC (Inr data) ts currentTime st)) =
       (case ToNumber E (soilMoisture r) of
          Inl e \<Rightarrow> []
        | Inr moisture \<Rightarrow>
            if num_lt (Fin MOISTURE_DRY_THRESHOLD) moisture \<and> pumpStatus r = JStr ''OFF'' then
              [Publish COMMAND_TOPIC (JObj [(''command'', JStr ''TURN_PUMP_ON'')])
                 (AutoOnCallback currentTime)]
            else if num_lt moisture (Fin MOISTURE_WET_THRESHOLD) \<and> pumpStatus r = JStr ''ON'' then
              [Publish COMMAND_TOPIC (JObj [(''command'', JStr ''TURN_PUMP_OFF'')])
                 (AutoOffCallback currentTime)]
            else [])"
      using on_message_publishes [OF build elapsed] .
    have d2: "publishes (snd (on_message E SENSOR_DATA_TOPIC (Inr data) ts' now' ?st1)) =
       (case ToNumber E (soilMoisture r) of
          Inl e \<Rightarrow> []
        | Inr moisture \<Rightarrow>
            if num_lt (Fin MOISTURE_DRY_THRESHOLD) moisture \<and> pumpStatus r = JStr ''OFF'' then
              [Publish COMMAND_TOPIC (JObj [(''command'', JStr ''TURN_PUMP_ON'')])
                 (AutoOnCallback now')]
            else if num_lt moisture (Fin MOISTURE_WET_THRESHOLD) \<and> pumpStatus r = JStr ''ON'' then
              [Publish COMMAND_TOPIC (JObj [(''command'', JStr ''TURN_PUMP_OFF'')])
                 (AutoOffCallback now')]
            else [])"
      using on_message_publishes [OF build' elapsed']
      by (cases "ToNumber E (soilMoisture r)") simp_all
    show ?thesis
      using first d1 d2 unfolding parsed topic
      by (auto split: sum.splits if_splits)
  qed
  show ?thesis
    using keep differ ok failed iff retry by blast
qed

theorem automation_callback_advances_witness:
  "Publish COMMAND_TOPIC (JObj [(''command'', JStr ''TURN_PUMP_ON'')]) (AutoOnCallback 30000)
     \<in> set (snd (on_message text_only_engine SENSOR_DATA_TOPIC
          (Inr (JObj [(''soilMoisture'', JNum (Fin 750)), (''pumpStatus'', JStr ''OFF'')]))
          5 30000 initial_server))
   \<and> publish_callback text_only_engine (AutoOnCallback 30000) None initial_server
       = Inr (initial_server\<lparr> lastPumpCommandTime := 30000 \<rparr>, [])
   \<and> (\<exists>line. publish_callback text_only_engine (AutoOnCallback 30000) (Some TransportError)
         initial_server = Inr (initial_server, [ConsoleError line]))
   \<and> (\<exists>cb'. publishes (snd (on_message text_only_engine SENSOR_DATA_TOPIC
          (Inr (JObj [(''soilMoisture'', JNum (Fin 750)), (''pumpStatus'', JStr ''OFF'')]))
          6 30000
          (fst (on_message text_only_engine SENSOR_DATA_TOPIC
             (Inr (JObj [(''soilMoisture'', JNum (Fin 750)), (''pumpStatus'', JStr ''OFF'')]))
             5 30000 initial_server))))
        = [Publish COMMAND_TOPIC (JObj [(''command'', JStr ''TURN_PUMP_ON'')]) cb'])"
proof -
  let ?data = "JObj [(''soilMoisture'', JNum (Fin 750)), (''pumpStatus'', JStr ''OFF'')]"
  have b: "build_reading text_only_engine ?data 5
     = Inr \<lparr> soilMoisture = JNum (Fin 750), pumpStatus = JStr ''OFF'', temperature = JNull,
             humidity = JNull, timestamp = Some 5 \<rparr>"
    by (simp add: build_reading_def)
  have c: "(30000::int) - lastPumpCommandTime initial_server \<ge> 30000"
    by (simp add: initial_server_def)
  have "publishes (snd (on_message text_only_engine SENSOR_DATA_TOPIC (Inr ?data)
          5 30000 initial_server))
       = [Publish COMMAND_TOPIC (JObj [(''command'', JStr ''TURN_PUMP_ON'')])
            (AutoOnCallback 30000)]"
    using on_message_publishes [OF b c] by (simp add: MOISTURE_DRY_THRESHOLD_def)
  then have "Publish COMMAND_TOPIC (JObj [(''command'', JStr ''TURN_PUMP_ON'')])
            (AutoOnCallback 30000)
      \<in> set (filter is_publish (snd (on_message text_only_engine SENSOR_DATA_TOPIC
                 (Inr ?data) 5 30000 initial_server)))"
    by (simp add: publishes_def)
  then have pub: "Publish COMMAND_TOPIC (JObj [(''command'', JStr ''TURN_PUMP_ON'')])
            (AutoOnCallback 30000)
      \<in> set (snd (on_message text_only_engine SENSOR_DATA_TOPIC
                 (Inr ?data) 5 30000 initial_server))"
    by simp
  note inst = automation_callback_advances [OF pub]
  have ok: "publish_callback text_only_engine (AutoOnCallback 30000) None initial_server
       = Inr (initial_server\<lparr> lastPumpCommandTime := 30000 \<rparr>, [])"
    using inst by blast
  have failed: "\<exists>line. publish_callback text_only_engine (AutoOnCallback 30000)
         (Some TransportError) initial_server = Inr (initial_server, [ConsoleError line])"
    using inst by blast
  have retry: "\<exists>cb'. publishes (snd (on_message text_only_engine SENSOR_DATA_TOPIC (Inr ?data)
          6 30000
          (fst (on_message text_only_engine SENSOR_DATA_TOPIC (Inr ?data) 5 30000 initial_server))))
        = [Publish COMMAND_TOPIC (JObj [(''command'', JStr ''TURN_PUMP_ON'')]) cb']"
    using inst by simp
  show ?thesis
    by (intro conjI pub ok failed retry)
qed

section \<open>Manual commands\<close>

text \<open>
  C5, as the code has it. For a request whose \<^verbatim>\<open>action\<close> is truthy (any non-empty string
  is), whatever \<^verbatim>\<open>lastPumpCommandTime\<close> is and without any threshold being looked at, the
  handler sets \<^verbatim>\<open>lastPumpCommandTime\<close> to the current time and publishes the action once
  on the command topic. The callback of that publish, with or without an error, leaves
  the state as it finds it, so the reset stands whether the publish succeeds or fails.
\<close>

theorem manual_command_truthy:
  assumes "get_prop body ''action'' = Inr action"
    and "truthy action"
  shows "post_command body now st =
           Inr (st\<lparr> lastPumpCommandTime := now \<rparr>,
                [Publish COMMAND_TOPIC (JObj [(''command'', action)]) (ManualCallback action)])
   \<and> (\<forall>err s s2 effs2.
         publish_callback E (ManualCallback action) err s = Inr (s2, effs2) \<longrightarrow> s2 = s)"
  using assms
  by (auto simp: post_command_def publish_callback_def ebind_def split: if_splits sum.splits)

theorem manual_command_truthy_witness:
  "get_prop (JObj [(''action'', JStr ''TURN_PUMP_ON'')]) ''action'' = Inr (JStr ''TURN_PUMP_ON'')
   \<and> truthy (JStr ''TURN_PUMP_ON'')
   \<and> post_command (JObj [(''action'', JStr ''TURN_PUMP_ON'')]) 1000 initial_server =
           Inr (initial_server\<lparr> lastPumpCommandTime := 1000 \<rparr>,
                [Publish COMMAND_TOPIC (JObj [(''command'', JStr ''TURN_PUMP_ON'')])
                   (ManualCallback (JStr ''TURN_PUMP_ON''))])"
proof -
  have a: "get_prop (JObj [(''action'', JStr ''TURN_PUMP_ON'')]) ''action''
             = Inr (JStr ''TURN_PUMP_ON'')"
    by simp
  have b: "truthy (JStr ''TURN_PUMP_ON'')"
    by simp
  show ?thesis
    using manual_command_truthy [OF a b, of 1000 initial_server text_only_engine] a b
    by blast
qed

text \<open>
  C5 as stated fails for an action that is a string, present in the body, and empty: the
  handler answers 400, publishes nothing, and \<^verbatim>\<open>lastPumpCommandTime\<close> stays 0 at time
  1000.
\<close>

theorem manual_command_empty_action:
  "post_command (JObj [(''action'', JStr '''')]) 1000 initial_server =
     Inr (initial_server,
          [Respond 400 (JObj [(''success'', JBool False),
             (''message'', JStr ''Action is required in request body.'')])])
   \<and> lastPumpCommandTime initial_server = 0"
  by (simp add: post_command_def initial_server_def)

text \<open>
  C10. For a request body that holds an \<^verbatim>\<open>action\<close> whose value is falsy (the empty string,
  0, false, null), the handler answers 400 with the message that the action is required,
  publishes nothing and leaves the state, \<^verbatim>\<open>lastPumpCommandTime\<close> included, unchanged.
\<close>

theorem manual_command_falsy:
  assumes "map_of kvs ''action'' = Some v"
    and "\<not> truthy v"
  shows "post_command (JObj kvs) now st =
     Inr (st, [Respond 400 (JObj [(''success'', JBool False),
                 (''message'', JStr ''Action is required in request body.'')])])"
  using assms by (simp add: post_command_def)

theorem manual_command_falsy_witness:
  "map_of [(''action'', JNum (Fin 0))] ''action'' = Some (JNum (Fin 0))
   \<and> \<not> truthy (JNum (Fin 0))
   \<and> post_command (JObj [(''action'', JNum (Fin 0))]) 1000 initial_server =
       Inr (initial_server, [Respond 400 (JObj [(''success'', JBool False),
                 (''message'', JStr ''Action is required in request body.'')])])
   \<and> post_command (JObj [(''action'', JBool False)]) 1000 initial_server =
       Inr (initial_server, [Respond 400 (JObj [(''success'', JBool False),
                 (''message'', JStr ''Action is required in request body.'')])])
   \<and> post_command (JObj [(''action'', JNull)]) 1000 initial_server =
       Inr (initial_server, [Respond 400 (JObj [(''success'', JBool False),
                 (''message'', JStr ''Action is required in request body.'')])])"
proof -
  have a: "map_of [(''action'', JNum (Fin 0))] ''action'' = Some (JNum (Fin 0))"
    by simp
  have b: "\<not> truthy (JNum (Fin 0))"
    by simp
  have a2: "map_of [(''action'', JBool False)] ''action'' = Some (JBool False)"
    by simp
  have b2: "\<not> truthy (JBool False)"
    by simp
  have a3: "map_of [(''action'', JNull)] ''action'' = Some JNull"
    by simp
  have b3: "\<not> truthy JNull"
    by simp
  show ?thesis
    using manual_command_falsy [OF a b, of 1000 initial_server]
      manual_command_falsy [OF a2 b2, of 1000 initial_server]
      manual_command_falsy [OF a3 b3, of 1000 initial_server] a b
    by blast
qed

section \<open>Payloads that do not parse\<close>

text \<open>
  C6. When \<^verbatim>\<open>JSON.parse\<close> throws on the payload, the handler returns with the state
  unchanged (latest reading, history and \<^verbatim>\<open>lastPumpCommandTime\<close>), having logged the
  failure on the error console and nothing else: no command is published. The error
  does not leave the handler, and the messages that follow are handled as if the bad one
  had not arrived.
\<close>

theorem unparseable_message_dropped:
  "on_message E topic (Inl e) ts currentTime st
     = (st, [ConsoleError ''Failed to parse MQTT message:''])
   \<and> run_messages E ((topic, Inl e, ts, currentTime) # ms) st
     = (fst (run_messages E ms st),
        ConsoleError ''Failed to parse MQTT message:'' # snd (run_messages E ms st))"
  by (simp add: on_message_def case_prod_beta)

theorem unparseable_message_dropped_witness:
  "on_message text_only_engine SENSOR_DATA_TOPIC (Inl SyntaxError) 5 6 initial_server
     = (initial_server, [ConsoleError ''Failed to parse MQTT message:''])"
  using unparseable_message_dropped
    [of text_only_engine SENSOR_DATA_TOPIC SyntaxError 5 6 initial_server "[]"]
  by (rule conjunct1)

section \<open>The reading built from a payload\<close>

lemma ebind_eq_Inr: "ebind m f = Inr y \<longleftrightarrow> (\<exists>x. m = Inr x \<and> f x = Inr y)"
  by (cases m) simp_all

text \<open>
  C7, as the code has it. Whenever the handler builds a reading from a parsed payload:
  its moisture is the payload's \<^verbatim>\<open>soilMoisture\<close>; its pump status is the payload's
  \<^verbatim>\<open>pumpStatus\<close> when that is truthy and \<^verbatim>\<open>UNKNOWN\<close> otherwise (absent, or present and
  falsy); its temperature is \<^verbatim>\<open>null\<close> exactly when the payload has no \<^verbatim>\<open>temperature\<close>, and
  otherwise the number \<^verbatim>\<open>parseFloat\<close> returns for it, which for a value that is not
  numeric is NaN and not \<^verbatim>\<open>null\<close>; its humidity likewise with \<^verbatim>\<open>parseInt\<close>; its timestamp
  is the time of ingestion.
\<close>

theorem reading_fields:
  assumes "build_reading E data ts = Inr r"
  shows "get_prop data ''soilMoisture'' = Inr (soilMoisture r)
   \<and> (\<exists>p. get_prop data ''pumpStatus'' = Inr p
          \<and> pumpStatus r = (if truthy p then p else JStr ''UNKNOWN''))
   \<and> (\<exists>t. get_prop data ''temperature'' = Inr t
          \<and> (if t = JUndefined then temperature r = JNull
              else (\<exists>n. parseFloat E t = Inr n \<and> temperature r = JNum n)))
   \<and> (\<exists>h. get_prop data ''humidity'' = Inr h
          \<and> (if h = JUndefined then humidity r = JNull
              else (\<exists>n. parseInt E h = Inr n \<and> humidity r = JNum n)))
   \<and> timestamp r = Some ts"
proof -
  obtain sm ps t t' h h' where
    sm: "get_prop data ''soilMoisture'' = Inr sm"
    and ps: "get_prop data ''pumpStatus'' = Inr ps"
    and t: "get_prop data ''temperature'' = Inr t"
    and t': "(if t \<noteq> JUndefined then ebind (parseFloat E t) (\<lambda>n. Inr (JNum n)) else Inr JNull)
              = Inr t'"
    and h: "get_prop data ''humidity'' = Inr h"
    and h': "(if h \<noteq> JUndefined then ebind (parseInt E h) (\<lambda>n. Inr (JNum n)) else Inr JNull)
              = Inr h'"
    and r: "r = \<lparr> soilMoisture = sm, pumpStatus = (if truthy ps then ps else JStr ''UNKNOWN''),
                  temperature = t', humidity = h', timestamp = Some ts \<rparr>"
    using assms unfolding build_reading_def ebind_eq_Inr by blast
  have temp: "if t = JUndefined then temperature r = JNull
              else (\<exists>n. parseFloat E t = Inr n \<and> temperature r = JNum n)"
    using t' r by (cases "t = JUndefined") (auto simp: ebind_eq_Inr)
  have hum: "if h = JUndefined then humidity r = JNull
              else (\<exists>n. parseInt E h = Inr n \<and> humidity r = JNum n)"
    using h' r by (cases "h = JUndefined") (auto simp: ebind_eq_Inr)
  show ?thesis
    using sm ps t h temp hum r by simp
qed

theorem reading_fields_witness:
  "build_reading text_only_engine
     (JObj [(''soilMoisture'', JNum (Fin 500)), (''pumpStatus'', JStr ''ON''),
            (''temperature'', JStr ''abc'')]) 5
     = Inr \<lparr> soilMoisture = JNum (Fin 500), pumpStatus = JStr ''ON'', temperature = JNum NaN,
             humidity = JNull, timestamp = Some 5 \<rparr>
   \<and> get_prop (JObj [(''soilMoisture'', JNum (Fin 500)), (''pumpStatus'', JStr ''ON''),
            (''temperature'', JStr ''abc'')]) ''soilMoisture'' = Inr (JNum (Fin 500))"
proof -
  have b: "build_reading text_only_engine
     (JObj [(''soilMoisture'', JNum (Fin 500)), (''pumpStatus'', JStr ''ON''),
            (''temperature'', JStr ''abc'')]) 5
     = Inr \<lparr> soilMoisture = JNum (Fin 500), pumpStatus = JStr ''ON'', temperature = JNum NaN,
             humidity = JNull, timestamp = Some 5 \<rparr>"
    by (simp add: build_reading_def parseFloat_def text_only_engine_def)
  have "get_prop (JObj [(''soilMoisture'', JNum (Fin 500)), (''pumpStatus'', JStr ''ON''),
            (''temperature'', JStr ''abc'')]) ''soilMoisture''
        = Inr (soilMoisture \<lparr> soilMoisture = JNum (Fin 500), pumpStatus = JStr ''ON'',
             temperature = JNum NaN, humidity = JNull, timestamp = Some 5 \<rparr>)"
    using reading_fields [OF b] by (rule conjunct1)
  then show ?thesis
    using b by simp
qed

text \<open>
  C7 as stated fails on a payload whose \<^verbatim>\<open>pumpStatus\<close> is present and is the empty
  string, and whose \<^verbatim>\<open>temperature\<close> is the text \<^verbatim>\<open>abc\<close>: the reading has the status
  \<^verbatim>\<open>UNKNOWN\<close>, not the payload's, and the temperature NaN, not \<^verbatim>\<open>null\<close>.
\<close>

theorem reading_defaults_counterexample:
  "build_reading text_only_engine
     (JObj [(''soilMoisture'', JNum (Fin 500)), (''pumpStatus'', JStr []),
            (''temperature'', JStr ''abc'')]) 5
     = Inr \<lparr> soilMoisture = JNum (Fin 500), pumpStatus = JStr ''UNKNOWN'',
             temperature = JNum NaN, humidity = JNull, timestamp = Some 5 \<rparr>
   \<and> JStr ''UNKNOWN'' \<noteq> JStr []
   \<and> JNum NaN \<noteq> JNull"
  by (simp add: build_reading_def parseFloat_def text_only_engine_def)

section \<open>The weather refresh that fails\<close>

text \<open>
  C9, as the code has it. When anything is thrown inside \<^verbatim>\<open>try\<close> (the request rejects,
  or \<^verbatim>\<open>main\<close>, \<^verbatim>\<open>weather[0]\<close> or \<^verbatim>\<open>wind\<close> cannot be read from the answer),
  \<^verbatim>\<open>fetchWeatherData\<close> returns with the whole state, the cached weather included,
  unchanged, and all it has done is write on the console.
\<close>

theorem weather_failure_keeps_snapshot:
  assumes "weather_try response ts = Inl e"
  shows "fst (fetchWeatherData key response ts st) = st
   \<and> snd (fetchWeatherData key response ts st) \<noteq> []
   \<and> (\<forall>x \<in> set (snd (fetchWeatherData key response ts st)). is_console x)"
  using assms by (simp add: fetchWeatherData_def)

theorem weather_failure_keeps_snapshot_witness:
  "weather_try (Inl (AxiosError False)) 5 = Inl (AxiosError False)
   \<and> fst (fetchWeatherData ''k'' (Inl (AxiosError False)) 5 initial_server) = initial_server
   \<and> weather_try (Inr (JObj [(''cod'', JNum (Fin 401))])) 5 = Inl TypeError
   \<and> fst (fetchWeatherData ''k'' (Inr (JObj [(''cod'', JNum (Fin 401))])) 5 initial_server)
       = initial_server"
proof -
  have a: "weather_try (Inl (AxiosError False)) 5 = Inl (AxiosError False)"
    by (simp add: weather_try_def)
  have b: "weather_try (Inr (JObj [(''cod'', JNum (Fin 401))])) 5 = Inl TypeError"
    by (simp add: weather_try_def weather_of_response_def)
  have c: "fst (fetchWeatherData ''k'' (Inl (AxiosError False)) 5 initial_server) = initial_server"
    using weather_failure_keeps_snapshot [OF a] by (rule conjunct1)
  have d: "fst (fetchWeatherData ''k'' (Inr (JObj [(''cod'', JNum (Fin 401))])) 5 initial_server)
       = initial_server"
    using weather_failure_keeps_snapshot [OF b] by (rule conjunct1)
  show ?thesis
    by (intro conjI a b c d)
qed

text \<open>
  C9 as stated fails on an answer that is malformed and makes nothing throw: \<^verbatim>\<open>main\<close> an
  empty object, \<^verbatim>\<open>weather\<close> a text, \<^verbatim>\<open>wind\<close> a number, \<^verbatim>\<open>name\<close> null. Nothing checks
  the answer, so the refresh counts as done: the cached snapshot, which held 21 degrees
  for Nairobi, is overwritten with undefined fields and the success line is logged.
\<close>

theorem weather_malformed_overwrites_counterexample:
  "fetchWeatherData ''k''
     (Inr (JObj [(''main'', JObj []), (''weather'', JStr ''sunny''),
                 (''wind'', JNum (Fin 7)), (''name'', JNull)]))
     5
     (initial_server\<lparr> latestWeatherData :=
        \<lparr> w_temperature = JNum (Fin 21), w_feels_like = JNum (Fin 20),
          w_description = JStr ''clear sky'', w_icon = JStr ''01d'',
          w_city = JStr ''Nairobi'', w_humidity = JNum (Fin 60),
          w_wind_speed = JNum (Fin 3), w_timestamp = Some 1 \<rparr> \<rparr>)
   = (initial_server\<lparr> latestWeatherData :=
        \<lparr> w_temperature = JUndefined, w_feels_like = JUndefined,
          w_description = JUndefined, w_icon = JUndefined,
          w_city = JNull, w_humidity = JUndefined,
          w_wind_speed = JUndefined, w_timestamp = Some 5 \<rparr> \<rparr>,
      [ConsoleLog ''Fetched weather data:''])
   \<and> w_temperature (latestWeatherData
        (fst (fetchWeatherData ''k''
           (Inr (JObj [(''main'', JObj []), (''weather'', JStr ''sunny''),
                       (''wind'', JNum (Fin 7)), (''name'', JNull)]))
           5
           (initial_server\<lparr> latestWeatherData :=
              \<lparr> w_temperature = JNum (Fin 21), w_feels_like = JNum (Fin 20),
                w_description = JStr ''clear sky'', w_icon = JStr ''01d'',
                w_city = JStr ''Nairobi'', w_humidity = JNum (Fin 60),
                w_wind_speed = JNum (Fin 3), w_timestamp = Some 1 \<rparr> \<rparr>))))
       \<noteq> JNum (Fin 21)"
  by (simp add: fetchWeatherData_def weather_try_def weather_of_response_def)

section \<open>The history query does not share the live array\<close>



lemma lookup_new [simp]: "lookup (\<sigma> @ [c]) (length \<sigma>) = Some c"
  by (simp add: lookup_def)



lemma array_assign_new [simp]:
  "array_assign (\<sigma> @ [c]) (length \<sigma>) ys = \<sigma> @ [ArrayCell ys]"
  by (simp add: array_assign_def)




end
